theory Spec2Isabelle
  imports Complex_Main
begin

section \<open>JavaScript values used by the route handlers\<close>

text \<open>
  The handlers of \<^verbatim>\<open>server/routes.ts\<close> work on JavaScript numbers and strings.
  A number is modelled as \<open>NaN\<close>, a finite exact rational, or one of the two infinities;
  the rounding of IEEE doubles is not modelled, so a decimal literal denotes its exact
  value. Negative zero is identified with zero (both are falsy and compare alike).
  Strings are lists of ASCII characters.
\<close>

datatype jsnum = NaN | Fin rat | PosInf | NegInf

text \<open>Truthiness of a number, as used by \<^verbatim>\<open>x || d\<close> and \<^verbatim>\<open>!x\<close>.\<close>

fun js_truthy :: "jsnum \<Rightarrow> bool" where
  "js_truthy NaN = False"
| "js_truthy (Fin r) = (r \<noteq> 0)"
| "js_truthy PosInf = True"
| "js_truthy NegInf = True"

text \<open>\<^verbatim>\<open>x || d\<close> on numbers.\<close>

definition js_or :: "jsnum \<Rightarrow> jsnum \<Rightarrow> jsnum" where
  "js_or x d = (if js_truthy x then x else d)"

text \<open>\<^verbatim>\<open>x <= y\<close> on numbers: every comparison with \<open>NaN\<close> is false.\<close>

fun js_le :: "jsnum \<Rightarrow> jsnum \<Rightarrow> bool" where
  "js_le NaN _ = False"
| "js_le _ NaN = False"
| "js_le (Fin a) (Fin b) = (a \<le> b)"
| "js_le NegInf _ = True"
| "js_le _ PosInf = True"
| "js_le PosInf _ = False"
| "js_le _ NegInf = False"

text \<open>\<^verbatim>\<open>x * k\<close> for a positive finite constant \<open>k\<close> (the handlers only multiply by 1000).\<close>

fun js_scale :: "rat \<Rightarrow> jsnum \<Rightarrow> jsnum" where
  "js_scale k NaN = NaN"
| "js_scale k (Fin r) = Fin (r * k)"
| "js_scale k PosInf = PosInf"
| "js_scale k NegInf = NegInf"

text \<open>\<^verbatim>\<open>Math.round\<close>: the nearest integer, a tie going up.\<close>

fun Math_round :: "jsnum \<Rightarrow> jsnum" where
  "Math_round (Fin r) = Fin (of_int \<lfloor>r + 1 / 2\<rfloor>)"
| "Math_round x = x"

subsection \<open>Characters and strings\<close>

definition is_digit :: "char \<Rightarrow> bool" where
  "is_digit c = (c \<in> set ''0123456789'')"

definition digit_val :: "char \<Rightarrow> nat" where
  "digit_val c =
     (case map_of (zip ''0123456789'' [0, 1, 2, 3, 4, 5, 6, 7, 8, 9]) c of
        Some d \<Rightarrow> d | None \<Rightarrow> 0)"

definition is_hex_digit :: "char \<Rightarrow> bool" where
  "is_hex_digit c = (c \<in> set ''0123456789abcdefABCDEF'')"

definition hex_val :: "char \<Rightarrow> nat" where
  "hex_val c =
     (case map_of (zip ''0123456789abcdefABCDEF''
                       [0, 1, 2, 3, 4, 5, 6, 7, 8, 9, 10, 11, 12, 13, 14, 15,
                        10, 11, 12, 13, 14, 15]) c of
        Some d \<Rightarrow> d | None \<Rightarrow> 0)"

text \<open>The value of a digit string in a radix, most significant digit first.\<close>

definition digits_val :: "string \<Rightarrow> nat" where
  "digits_val ds = foldl (\<lambda>a c. 10 * a + digit_val c) 0 ds"

definition hex_digits_val :: "string \<Rightarrow> nat" where
  "hex_digits_val ds = foldl (\<lambda>a c. 16 * a + hex_val c) 0 ds"

text \<open>The ASCII white space that \<^verbatim>\<open>parseInt\<close> and \<^verbatim>\<open>parseFloat\<close> skip:
  tab, line feed, vertical tab, form feed, carriage return and space.\<close>

definition is_space :: "char \<Rightarrow> bool" where
  "is_space c = (c \<in> set [CHR 0x09, CHR 0x0A, CHR 0x0B, CHR 0x0C, CHR 0x0D, CHR 0x20])"

definition trim_start :: "string \<Rightarrow> string" where
  "trim_start s = dropWhile is_space s"

text \<open>\<^verbatim>\<open>String.prototype.toLowerCase\<close> on ASCII.\<close>

definition lower_char :: "char \<Rightarrow> char" where
  "lower_char c =
     (case map_of (zip ''ABCDEFGHIJKLMNOPQRSTUVWXYZ'' ''abcdefghijklmnopqrstuvwxyz'') c of
        Some l \<Rightarrow> l | None \<Rightarrow> c)"

definition toLowerCase :: "string \<Rightarrow> string" where
  "toLowerCase s = map lower_char s"

text \<open>\<^verbatim>\<open>s.includes(sub)\<close>: \<open>sub\<close> occurs in \<open>s\<close> as a contiguous substring.\<close>

fun str_includes :: "string \<Rightarrow> string \<Rightarrow> bool" where
  "str_includes [] sub = (sub = [])"
| "str_includes (c # cs) sub = (take (length sub) (c # cs) = sub \<or> str_includes cs sub)"

subsection \<open>parseInt and parseFloat\<close>

text \<open>
  \<^verbatim>\<open>parseInt(s)\<close> with no radix: leading white space is skipped, a sign is read, a
  prefix \<^verbatim>\<open>0x\<close> or \<^verbatim>\<open>0X\<close> selects radix 16, and the longest run of digits is
  converted; with no digit the result is \<open>NaN\<close>, here \<open>None\<close>.
\<close>

definition parseInt_unsigned :: "string \<Rightarrow> int option" where
  "parseInt_unsigned s =
     (if take 2 s = ''0x'' \<or> take 2 s = ''0X''
      then (let z = takeWhile is_hex_digit (drop 2 s)
            in if z = [] then None else Some (int (hex_digits_val z)))
      else (let z = takeWhile is_digit s
            in if z = [] then None else Some (int (digits_val z))))"

definition parseInt :: "string \<Rightarrow> int option" where
  "parseInt s =
     (case trim_start s of
        [] \<Rightarrow> None
      | c # t \<Rightarrow>
          if c = CHR ''-'' then map_option uminus (parseInt_unsigned t)
          else if c = CHR ''+'' then parseInt_unsigned t
          else parseInt_unsigned (c # t))"

text \<open>
  \<^verbatim>\<open>parseFloat(s)\<close>: leading white space is skipped and the longest prefix that is a
  decimal literal is converted: an optional sign, then \<^verbatim>\<open>Infinity\<close> or digits with an
  optional fraction (one of the two digit runs may be empty, not both), then an optional
  exponent, which counts only when it has a digit.
\<close>

text \<open>The digits of an exponent part after \<^verbatim>\<open>e\<close>, with the sign split off.\<close>

definition exponent_digits :: "string \<Rightarrow> bool \<times> string" where
  "exponent_digits t =
     (case t of
        [] \<Rightarrow> (False, [])
      | c # u \<Rightarrow>
          if c = CHR ''-'' then (True, takeWhile is_digit u)
          else if c = CHR ''+'' then (False, takeWhile is_digit u)
          else (False, takeWhile is_digit (c # u)))"

definition exponent_factor :: "string \<Rightarrow> rat" where
  "exponent_factor s =
     (case s of
        [] \<Rightarrow> 1
      | e # t \<Rightarrow>
          if e = CHR ''e'' \<or> e = CHR ''E''
          then (let (neg, ds) = exponent_digits t
                in if ds = [] then 1
                   else if neg then 1 / 10 ^ digits_val ds
                   else 10 ^ digits_val ds)
          else 1)"

text \<open>The value of an integer part \<open>ip\<close> followed by a fraction part \<open>fp\<close>.\<close>

definition decimal_value :: "string \<Rightarrow> string \<Rightarrow> rat" where
  "decimal_value ip fp = of_nat (digits_val ip) + of_nat (digits_val fp) / 10 ^ length fp"

text \<open>A leading dot starts a fraction part.\<close>

definition after_dot :: "string \<Rightarrow> string option" where
  "after_dot r = (case r of [] \<Rightarrow> None | c # t \<Rightarrow> if c = CHR ''.'' then Some t else None)"

definition parseFloat_unsigned :: "string \<Rightarrow> rat option" where
  "parseFloat_unsigned s =
     (let ip = takeWhile is_digit s; r1 = dropWhile is_digit s;
          fp = (case after_dot r1 of Some t \<Rightarrow> takeWhile is_digit t | None \<Rightarrow> []);
          r2 = (case after_dot r1 of Some t \<Rightarrow> dropWhile is_digit t | None \<Rightarrow> r1)
      in if ip = [] \<and> fp = [] then None
         else Some (decimal_value ip fp * exponent_factor r2))"

definition parseFloat_signed :: "bool \<Rightarrow> string \<Rightarrow> jsnum" where
  "parseFloat_signed neg s =
     (if take 8 s = ''Infinity'' then (if neg then NegInf else PosInf)
      else (case parseFloat_unsigned s of
              None \<Rightarrow> NaN
            | Some r \<Rightarrow> Fin (if neg then - r else r)))"

definition parseFloat :: "string \<Rightarrow> jsnum" where
  "parseFloat s =
     (case trim_start s of
        [] \<Rightarrow> NaN
      | c # t \<Rightarrow>
          if c = CHR ''-'' then parseFloat_signed True t
          else if c = CHR ''+'' then parseFloat_signed False t
          else parseFloat_signed False (c # t))"

text \<open>
  The regular expression \<^verbatim>\<open>/^(\d+(\.\d+)?)/\<close> of both facility handlers: the match is
  the leading run of digits, extended by a dot and a further run of digits when both are
  there; without a leading digit there is no match.
\<close>

definition distanceMatch :: "string \<Rightarrow> string option" where
  "distanceMatch s =
     (let ip = takeWhile is_digit s
      in if ip = [] then None
         else (case after_dot (dropWhile is_digit s) of
                 Some t \<Rightarrow>
                   (let fp = takeWhile is_digit t
                    in if fp = [] then Some ip else Some (ip @ CHR ''.'' # fp))
               | None \<Rightarrow> Some ip))"

section \<open>GET /api/properties/:id/nearby-facilities\<close>

text \<open>
  A stored facility row. The free-text distance may be missing, and the canonical
  distance in meters is nullable.
\<close>

record facility =
  name :: string
  facilityType :: string
  distance :: "string option"
  distanceValue :: "rat option"

record nearby_request =
  params_id :: string
  query_radius :: "string option"
  query_facilityType :: "string option"

datatype nearby_response =
  BadRequest string
| ServerError
| Json "facility list"

text \<open>The predicate of \<^verbatim>\<open>facilities.filter\<close> (the radius filter).\<close>

definition withinRadius :: "jsnum \<Rightarrow> jsnum \<Rightarrow> facility \<Rightarrow> bool" where
  "withinRadius searchRadius searchRadiusMeters f =
     (case distanceValue f of
        Some v \<Rightarrow> js_le (Fin v) searchRadiusMeters
      | None \<Rightarrow>
          (case distance f of
             Some d \<Rightarrow>
               (case distanceMatch d of
                  Some m \<Rightarrow> js_le (parseFloat m) searchRadius
                | None \<Rightarrow> False)
           | None \<Rightarrow> False))"

text \<open>\<^verbatim>\<open>parseFloat(radius as string) || 1\<close>, with \<^verbatim>\<open>radius = '1'\<close> when the query has none.\<close>

definition searchRadius_of :: "string option \<Rightarrow> jsnum" where
  "searchRadius_of radius =
     js_or (parseFloat (case radius of None \<Rightarrow> ''1'' | Some r \<Rightarrow> r)) (Fin 1)"

text \<open>
  The handler. Storage is a parameter: \<open>getNearbyFacilities\<close> maps a property id to its
  rows, or fails (\<open>None\<close>), which the handler passes on as a server error. The first
  component of the result lists the ids storage was asked for.
\<close>

definition nearbyFacilities ::
  "(int \<Rightarrow> facility list option) \<Rightarrow> nearby_request \<Rightarrow> int list \<times> nearby_response" where
  "nearbyFacilities getNearbyFacilities req =
     (case parseInt (params_id req) of
        None \<Rightarrow> ([], BadRequest ''Invalid property ID'')
      | Some pid \<Rightarrow>
          (let searchRadius = searchRadius_of (query_radius req);
               searchRadiusMeters = js_scale 1000 searchRadius
           in case getNearbyFacilities pid of
                None \<Rightarrow> ([pid], ServerError)
              | Some facilities \<Rightarrow>
                  (let filteredByRadius =
                         filter (withinRadius searchRadius searchRadiusMeters) facilities;
                       result =
                         (case query_facilityType req of
                            None \<Rightarrow> filteredByRadius
                          | Some t \<Rightarrow>
                              if t = [] then filteredByRadius
                              else filter (\<lambda>f. facilityType f = t) filteredByRadius)
                   in ([pid], Json result))))"

section \<open>GET /api/properties\<close>

text \<open>
  The query string: every parameter is optional, \<open>None\<close> when it is absent.
\<close>

record properties_query =
  query_page :: "string option"
  query_limit :: "string option"
  query_status :: "string option"
  query_category :: "string option"
  query_propertyType :: "string option"
  query_subType :: "string option"
  query_minPrice :: "string option"
  query_maxPrice :: "string option"
  query_minArea :: "string option"
  query_maxArea :: "string option"
  query_bedrooms :: "string option"
  query_bathrooms :: "string option"
  query_furnishedStatus :: "string option"
  query_parking :: "string option"
  query_facing :: "string option"
  query_search :: "string option"

text \<open>
  The \<^verbatim>\<open>filters\<close> object handed to storage. The enum-typed fields are strings:
  the handler's \<^verbatim>\<open>as\<close> casts are erased at run time. A numeric field is
  \<open>None\<close> when undefined and \<open>Some None\<close> when it is \<open>NaN\<close>.
\<close>

record filters =
  page :: int
  limit :: int
  status :: "string option"
  category :: "string option"
  propertyType :: "string option"
  subType :: "string option"
  minPrice :: "int option option"
  maxPrice :: "int option option"
  minArea :: "int option option"
  maxArea :: "int option option"
  bedrooms :: "int option option"
  bathrooms :: "int option option"
  furnishedStatus :: "string option"
  parking :: "string option"
  facing :: "string option"
  search :: "string option"

text \<open>\<^verbatim>\<open>parseInt(req.query.x as string)\<close>: an absent parameter is \<^verbatim>\<open>undefined\<close>, which
  \<^verbatim>\<open>parseInt\<close> converts to the string \<^verbatim>\<open>"undefined"\<close> first.\<close>

definition parseInt_query :: "string option \<Rightarrow> int option" where
  "parseInt_query v = parseInt (case v of None \<Rightarrow> ''undefined'' | Some s \<Rightarrow> s)"

text \<open>\<^verbatim>\<open>n || d\<close> for the result of \<^verbatim>\<open>parseInt\<close>: \<open>NaN\<close> and 0 are falsy.\<close>

definition int_or :: "int option \<Rightarrow> int \<Rightarrow> int" where
  "int_or n d = (case n of None \<Rightarrow> d | Some k \<Rightarrow> if k \<noteq> 0 then k else d)"

text \<open>\<^verbatim>\<open>req.query.x ? parseInt(req.query.x as string) : undefined\<close>: the empty string is
  falsy.\<close>

definition optional_int :: "string option \<Rightarrow> int option option" where
  "optional_int v =
     (case v of None \<Rightarrow> None | Some s \<Rightarrow> if s = [] then None else Some (parseInt s))"

definition build_filters :: "properties_query \<Rightarrow> filters" where
  "build_filters q =
     \<lparr> page = int_or (parseInt_query (query_page q)) 1,
       limit = int_or (parseInt_query (query_limit q)) 9,
       status = query_status q,
       category = query_category q,
       propertyType = query_propertyType q,
       subType = query_subType q,
       minPrice = optional_int (query_minPrice q),
       maxPrice = optional_int (query_maxPrice q),
       minArea = optional_int (query_minArea q),
       maxArea = optional_int (query_maxArea q),
       bedrooms = optional_int (query_bedrooms q),
       bathrooms = optional_int (query_bathrooms q),
       furnishedStatus = query_furnishedStatus q,
       parking = query_parking q,
       facing = query_facing q,
       search = query_search q \<rparr>"

record pagination =
  pagination_page :: int
  pagination_limit :: int
  total_count :: int
  totalPages :: int

datatype 'p properties_response =
  PropertiesJson "'p list" pagination
| FetchFailed

text \<open>
  The handler. \<open>getPropertiesWithPagination\<close> is the storage layer, a parameter: it
  returns the page of properties and the count of all matches, or fails (\<open>None\<close>).
  \<^verbatim>\<open>Math.ceil(total / limit)\<close> is taken over exact rationals.
\<close>

definition getProperties ::
  "(filters \<Rightarrow> ('p list \<times> nat) option) \<Rightarrow> properties_query \<Rightarrow> 'p properties_response" where
  "getProperties getPropertiesWithPagination q =
     (let fs = build_filters q
      in case getPropertiesWithPagination fs of
           None \<Rightarrow> FetchFailed
         | Some (properties, n) \<Rightarrow>
             PropertiesJson properties
               \<lparr> pagination_page = page fs,
                 pagination_limit = limit fs,
                 total_count = int n,
                 totalPages = \<lceil>(of_nat n :: rat) / of_int (limit fs)\<rceil> \<rparr>)"

text \<open>
  The consumer in \<^verbatim>\<open>client/src/pages/properties-page.tsx\<close>:
  \<^verbatim>\<open>data?.pagination || { total: 0, page: 1, limit: 10, totalPages: 1 }\<close>, where
  \<^verbatim>\<open>data\<close> is undefined when the fetch failed, and then
  \<^verbatim>\<open>pages: pagination.totalPages || 1\<close>.
\<close>

definition client_pagination :: "'p properties_response \<Rightarrow> pagination" where
  "client_pagination data =
     (case data of
        PropertiesJson _ pg \<Rightarrow> pg
      | FetchFailed \<Rightarrow>
          \<lparr> pagination_page = 1, pagination_limit = 10, total_count = 0, totalPages = 1 \<rparr>)"

definition pages :: "pagination \<Rightarrow> int" where
  "pages pg = (if totalPages pg \<noteq> 0 then totalPages pg else 1)"

text \<open>A request without any query parameter.\<close>

definition q_empty :: properties_query where
  "q_empty = \<lparr>query_page = None, query_limit = None, query_status = None, query_category = None,
     query_propertyType = None, query_subType = None, query_minPrice = None, query_maxPrice = None,
     query_minArea = None, query_maxArea = None, query_bedrooms = None, query_bathrooms = None,
     query_furnishedStatus = None, query_parking = None, query_facing = None, query_search = None\<rparr>"

section \<open>POST /api/admin/properties/:propertyId/facilities\<close>

text \<open>
  The request body merged with the property id. Only the fields the distance
  computation reads are named; the rest of the body is the record's extension. The
  distance and the coordinates, when present, are strings, and the distance value, when
  present, is a number; \<open>None\<close> stands for a missing or null field.
\<close>

record facilityData =
  body_distance :: "string option"
  body_distanceValue :: "jsnum option"
  body_latitude :: "string option"
  body_longitude :: "string option"

text \<open>Truthiness of an optional number and of an optional string.\<close>

definition truthy_num :: "jsnum option \<Rightarrow> bool" where
  "truthy_num v = (case v of None \<Rightarrow> False | Some n \<Rightarrow> js_truthy n)"

definition truthy_str :: "string option \<Rightarrow> bool" where
  "truthy_str v = (case v of None \<Rightarrow> False | Some s \<Rightarrow> s \<noteq> [])"

text \<open>
  The first step of the handler (\<^verbatim>\<open>Calculate distanceValue in meters if not provided\<close>):
  it runs when \<^verbatim>\<open>!facilityData.distanceValue && facilityData.distance\<close>.
\<close>

definition deriveDistanceValue :: "'a facilityData_scheme \<Rightarrow> 'a facilityData_scheme" where
  "deriveDistanceValue facilityData =
     (if \<not> truthy_num (body_distanceValue facilityData) \<and> truthy_str (body_distance facilityData)
      then (case body_distance facilityData of
              None \<Rightarrow> facilityData
            | Some d \<Rightarrow>
                (case distanceMatch d of
                   None \<Rightarrow> facilityData
                 | Some m \<Rightarrow>
                     (let distanceNumeric = parseFloat m
                      in if str_includes (toLowerCase d) ''km''
                         then facilityData\<lparr>body_distanceValue :=
                                Some (Math_round (js_scale 1000 distanceNumeric))\<rparr>
                         else if str_includes (toLowerCase d) ''m''
                         then facilityData\<lparr>body_distanceValue :=
                                Some (Math_round distanceNumeric)\<rparr>
                         else facilityData\<lparr>body_distanceValue :=
                                Some (Math_round (js_scale 1000 distanceNumeric))\<rparr>)))
      else facilityData)"

text \<open>
  The guard of the second step, which computes the distance from coordinates: the
  property and the body both have latitude and longitude, and the distance value is
  still falsy.
\<close>

record property_coordinates =
  latitude :: "string option"
  longitude :: "string option"

definition coordinateStepRuns :: "property_coordinates \<Rightarrow> 'a facilityData_scheme \<Rightarrow> bool" where
  "coordinateStepRuns property facilityData =
     (truthy_str (latitude property) \<and> truthy_str (longitude property) \<and>
      truthy_str (body_latitude facilityData) \<and> truthy_str (body_longitude facilityData) \<and>
      \<not> truthy_num (body_distanceValue facilityData))"

section \<open>Properties of the parsers\<close>










lemma distanceMatch_None_iff: "distanceMatch d = None \<longleftrightarrow> (d = [] \<or> \<not> is_digit (hd d))"
  by (cases d) (auto simp: distanceMatch_def Let_def split: option.splits)

section \<open>Properties of the nearby-facility radius query\<close>

text \<open>With a valid id and a storage answer, the response lists exactly the stored rows that
  pass the radius filter and the type filter.\<close>

lemma nearby_result:
  assumes "parseInt (params_id req) = Some pid" and "getNearbyFacilities pid = Some fs"
  shows "\<exists>rs. nearbyFacilities getNearbyFacilities req = ([pid], Json rs) \<and>
           (\<forall>f. f \<in> set rs \<longleftrightarrow>
              f \<in> set fs \<and>
              withinRadius (searchRadius_of (query_radius req))
                (js_scale 1000 (searchRadius_of (query_radius req))) f \<and>
              (query_facilityType req = None \<or> query_facilityType req = Some [] \<or>
               query_facilityType req = Some (facilityType f)))"
  using assms by (auto simp: nearbyFacilities_def Let_def split: option.splits)

lemma nearby_Json:
  assumes "nearbyFacilities getNearbyFacilities req = (qs, Json rs)"
  shows "\<forall>f\<in>set rs. withinRadius (searchRadius_of (query_radius req))
                (js_scale 1000 (searchRadius_of (query_radius req))) f"
  using assms by (auto simp: nearbyFacilities_def Let_def split: option.splits if_splits)


lemma searchRadius_of_default:
  "parseFloat r = NaN \<or> parseFloat r = Fin 0 \<Longrightarrow> searchRadius_of (Some r) = Fin 1"
  by (auto simp: searchRadius_of_def js_or_def)

lemma parseFloat_1: "parseFloat ''1'' = Fin 1"
  by code_simp

lemma searchRadius_of_absent: "searchRadius_of None = Fin 1"
  by (simp add: searchRadius_of_def js_or_def parseFloat_1)

lemma searchRadius_of_1: "searchRadius_of (Some ''1'') = Fin 1"
  by (simp add: searchRadius_of_def js_or_def parseFloat_1)

lemma withinRadius_unknown:
  assumes "distanceValue f = None"
    and "distance f = None \<or> (\<exists>d. distance f = Some d \<and> (d = [] \<or> \<not> is_digit (hd d)))"
  shows "\<not> withinRadius sr srm f"
proof (cases "distance f")
  case None
  with assms(1) show ?thesis by (simp add: withinRadius_def)
next
  case (Some d)
  with assms(2) have "distanceMatch d = None" by (simp add: distanceMatch_None_iff)
  with assms(1) Some show ?thesis by (simp add: withinRadius_def)
qed

text \<open>
  C9. A request whose id path parameter does not parse as an integer is answered with
  status 400 (\<open>Invalid property ID\<close>), and storage is not queried: the list of ids asked
  of storage is empty.
\<close>

theorem invalid_id_bad_request:
  assumes "parseInt (params_id req) = None"
  shows "nearbyFacilities getNearbyFacilities req = ([], BadRequest ''Invalid property ID'')"
  using assms by (simp add: nearbyFacilities_def)

theorem invalid_id_bad_request_witness:
  "parseInt (params_id \<lparr>params_id = ''abc'', query_radius = None, query_facilityType = None\<rparr>) = None \<and>
   nearbyFacilities (\<lambda>_. Some [])
     \<lparr>params_id = ''abc'', query_radius = None, query_facilityType = None\<rparr>
     = ([], BadRequest ''Invalid property ID'')"
proof -
  have h: "parseInt (params_id \<lparr>params_id = ''abc'', query_radius = None, query_facilityType = None\<rparr>) = None"
    by code_simp
  from invalid_id_bad_request [OF h, of "\<lambda>_. Some []"] h show ?thesis by simp
qed

text \<open>
  C6. A facility row without a canonical distance whose free-text distance is missing or
  does not start with a digit (so the regular expression finds no numeric token) is in no
  response, whatever the radius and the facility-type filter of the request.
\<close>

theorem unknown_distance_excluded:
  assumes "distanceValue f = None"
    and "distance f = None \<or> (\<exists>d. distance f = Some d \<and> (d = [] \<or> \<not> is_digit (hd d)))"
    and "nearbyFacilities getNearbyFacilities req = (qs, Json rs)"
  shows "f \<notin> set rs"
  using nearby_Json [OF assms(3)] withinRadius_unknown [OF assms(1,2)] by blast

theorem unknown_distance_excluded_witness:
  "distanceValue \<lparr>name = ''Park'', facilityType = ''park'', distance = Some ''nearby'', distanceValue = None\<rparr> = None \<and>
   \<not> is_digit (hd ''nearby'') \<and>
   nearbyFacilities
     (\<lambda>_. Some [\<lparr>name = ''Park'', facilityType = ''park'', distance = Some ''nearby'', distanceValue = None\<rparr>,
                 \<lparr>name = ''School'', facilityType = ''school'', distance = Some ''0.5 km'', distanceValue = Some 500\<rparr>])
     \<lparr>params_id = ''7'', query_radius = Some ''100'', query_facilityType = None\<rparr>
     = ([7], Json [\<lparr>name = ''School'', facilityType = ''school'', distance = Some ''0.5 km'', distanceValue = Some 500\<rparr>]) \<and>
   \<lparr>name = ''Park'', facilityType = ''park'', distance = Some ''nearby'', distanceValue = None\<rparr>
     \<notin> set [\<lparr>name = ''School'', facilityType = ''school'', distance = Some ''0.5 km'', distanceValue = Some 500\<rparr>]"
proof -
  let ?f = "\<lparr>name = ''Park'', facilityType = ''park'', distance = Some ''nearby'', distanceValue = None\<rparr>"
  let ?s = "\<lparr>name = ''School'', facilityType = ''school'', distance = Some ''0.5 km'', distanceValue = Some 500\<rparr>"
  let ?req = "\<lparr>params_id = ''7'', query_radius = Some ''100'', query_facilityType = None\<rparr>"
  have h1: "distanceValue ?f = None" by simp
  have d: "\<not> is_digit (hd ''nearby'')" by (simp add: is_digit_def)
  then have h2: "distance ?f = None \<or> (\<exists>d. distance ?f = Some d \<and> (d = [] \<or> \<not> is_digit (hd d)))"
    by simp
  have h3: "nearbyFacilities (\<lambda>_. Some [?f, ?s]) ?req = ([7], Json [?s])"
    by code_simp
  from unknown_distance_excluded [OF h1 h2 h3] h1 d h3 show ?thesis by blast
qed




text \<open>
  C10. A radius parameter that parses to 0 or does not parse gives the same response as
  the radius 1 and as a request without radius: the search radius is the default 1 km,
  and without a type filter a stored facility with a canonical distance is returned
  exactly when that distance is at most 1000 m.
\<close>

theorem radius_zero_or_invalid_defaults:
  assumes "parseFloat r = NaN \<or> parseFloat r = Fin 0"
  shows "nearbyFacilities getNearbyFacilities (req\<lparr>query_radius := Some r\<rparr>)
           = nearbyFacilities getNearbyFacilities (req\<lparr>query_radius := Some ''1''\<rparr>) \<and>
         nearbyFacilities getNearbyFacilities (req\<lparr>query_radius := Some r\<rparr>)
           = nearbyFacilities getNearbyFacilities (req\<lparr>query_radius := None\<rparr>) \<and>
         searchRadius_of (Some r) = Fin 1 \<and>
         (\<forall>pid fs. parseInt (params_id req) = Some pid \<and> getNearbyFacilities pid = Some fs \<and>
                   query_facilityType req = None \<longrightarrow>
            (\<exists>rs. nearbyFacilities getNearbyFacilities (req\<lparr>query_radius := Some r\<rparr>) = ([pid], Json rs) \<and>
                  (\<forall>f v. f \<in> set fs \<and> distanceValue f = Some v \<longrightarrow> (f \<in> set rs \<longleftrightarrow> v \<le> 1000))))"
proof -
  have sr: "searchRadius_of (Some r) = Fin 1"
    using assms by (rule searchRadius_of_default)
  have eq: "nearbyFacilities getNearbyFacilities (req\<lparr>query_radius := Some r\<rparr>)
           = nearbyFacilities getNearbyFacilities (req\<lparr>query_radius := Some ''1''\<rparr>)"
    by (simp add: nearbyFacilities_def Let_def sr searchRadius_of_1 split: option.split)
  have eq': "nearbyFacilities getNearbyFacilities (req\<lparr>query_radius := Some r\<rparr>)
           = nearbyFacilities getNearbyFacilities (req\<lparr>query_radius := None\<rparr>)"
    by (simp add: nearbyFacilities_def Let_def sr searchRadius_of_absent split: option.split)
  have "\<exists>rs. nearbyFacilities getNearbyFacilities (req\<lparr>query_radius := Some r\<rparr>) = ([pid], Json rs) \<and>
                  (\<forall>f v. f \<in> set fs \<and> distanceValue f = Some v \<longrightarrow> (f \<in> set rs \<longleftrightarrow> v \<le> 1000))"
    if h: "parseInt (params_id req) = Some pid" "getNearbyFacilities pid = Some fs"
          "query_facilityType req = None" for pid fs
  proof -
    from h(1) have p: "parseInt (params_id (req\<lparr>query_radius := Some r\<rparr>)) = Some pid" by simp
    from nearby_result [where getNearbyFacilities = getNearbyFacilities, OF p h(2)] obtain rs where
      rs: "nearbyFacilities getNearbyFacilities (req\<lparr>query_radius := Some r\<rparr>) = ([pid], Json rs)"
      and mem: "\<And>f. f \<in> set rs \<longleftrightarrow> f \<in> set fs \<and> withinRadius (Fin 1) (js_scale 1000 (Fin 1)) f"
      using h(3) by (auto simp: sr)
    have "f \<in> set rs \<longleftrightarrow> v \<le> 1000" if "f \<in> set fs" "distanceValue f = Some v" for f v
      using that mem [of f] by (simp add: withinRadius_def)
    with rs show ?thesis by blast
  qed
  with sr eq eq' show ?thesis by blast
qed

theorem radius_zero_or_invalid_defaults_witness:
  "parseFloat ''0'' = Fin 0 \<and> parseInt ''7'' = Some 7 \<and>
   nearbyFacilities
     (\<lambda>_. Some [\<lparr>name = ''School'', facilityType = ''school'', distance = None, distanceValue = Some 500\<rparr>,
                 \<lparr>name = ''Mall'', facilityType = ''mall'', distance = None, distanceValue = Some 1500\<rparr>])
     \<lparr>params_id = ''7'', query_radius = Some ''0'', query_facilityType = None\<rparr>
   = nearbyFacilities
     (\<lambda>_. Some [\<lparr>name = ''School'', facilityType = ''school'', distance = None, distanceValue = Some 500\<rparr>,
                 \<lparr>name = ''Mall'', facilityType = ''mall'', distance = None, distanceValue = Some 1500\<rparr>])
     \<lparr>params_id = ''7'', query_radius = Some ''1'', query_facilityType = None\<rparr> \<and>
   (\<exists>rs. nearbyFacilities
      (\<lambda>_. Some [\<lparr>name = ''School'', facilityType = ''school'', distance = None, distanceValue = Some 500\<rparr>,
                  \<lparr>name = ''Mall'', facilityType = ''mall'', distance = None, distanceValue = Some 1500\<rparr>])
      \<lparr>params_id = ''7'', query_radius = Some ''0'', query_facilityType = None\<rparr> = ([7], Json rs) \<and>
      \<lparr>name = ''School'', facilityType = ''school'', distance = None, distanceValue = Some 500\<rparr> \<in> set rs \<and>
      \<lparr>name = ''Mall'', facilityType = ''mall'', distance = None, distanceValue = Some 1500\<rparr> \<notin> set rs)"
proof -
  let ?s = "\<lparr>name = ''School'', facilityType = ''school'', distance = None, distanceValue = Some (500 :: rat)\<rparr>"
  let ?m = "\<lparr>name = ''Mall'', facilityType = ''mall'', distance = None, distanceValue = Some (1500 :: rat)\<rparr>"
  let ?req = "\<lparr>params_id = ''7'', query_radius = None, query_facilityType = None\<rparr>"
  let ?g = "\<lambda>_ :: int. Some [?s, ?m]"
  have h1: "parseFloat ''0'' = Fin 0" by code_simp
  have h2: "parseInt ''7'' = Some 7" by code_simp
  from h1 have h: "parseFloat ''0'' = NaN \<or> parseFloat ''0'' = Fin 0" by simp
  note t = radius_zero_or_invalid_defaults [OF h, of ?g ?req]
  from t have eq: "nearbyFacilities ?g (?req\<lparr>query_radius := Some ''0''\<rparr>)
      = nearbyFacilities ?g (?req\<lparr>query_radius := Some ''1''\<rparr>)"
    by blast
  have pre: "parseInt (params_id ?req) = Some 7 \<and> ?g 7 = Some [?s, ?m] \<and>
      query_facilityType ?req = None"
    using h2 by simp
  from t [THEN conjunct2, THEN conjunct2, THEN conjunct2, rule_format, of 7 "[?s, ?m]", OF pre] obtain rs where
    rs: "nearbyFacilities ?g (?req\<lparr>query_radius := Some ''0''\<rparr>) = ([7], Json rs)"
    and mem: "\<And>f v. f \<in> set [?s, ?m] \<and> distanceValue f = Some v \<longrightarrow> (f \<in> set rs \<longleftrightarrow> v \<le> 1000)"
    by blast
  from mem [of ?s 500] have "?s \<in> set rs" by simp
  moreover from mem [of ?m 1500] have "?m \<notin> set rs" by simp
  ultimately show ?thesis using h1 h2 eq rs by auto
qed

text \<open>
  C1. The fallback of the radius filter does not look at the unit of the free-text
  distance: the leading number is compared with the radius in kilometers whatever
  follows it. A facility with no canonical distance and the text \<open>800 m\<close> is therefore left
  out for the radii 0.8 and 1, although the handler that creates facilities reads the
  same text as 800 meters.
\<close>

theorem text_distance_unit_ignored:
  "nearbyFacilities
     (\<lambda>_. Some [\<lparr>name = ''Metro'', facilityType = ''metro'', distance = Some ''800 m'', distanceValue = None\<rparr>])
     \<lparr>params_id = ''7'', query_radius = Some ''1'', query_facilityType = None\<rparr> = ([7], Json []) \<and>
   nearbyFacilities
     (\<lambda>_. Some [\<lparr>name = ''Metro'', facilityType = ''metro'', distance = Some ''800 m'', distanceValue = None\<rparr>])
     \<lparr>params_id = ''7'', query_radius = Some ''0.8'', query_facilityType = None\<rparr> = ([7], Json []) \<and>
   body_distanceValue
     (deriveDistanceValue \<lparr>body_distance = Some ''800 m'', body_distanceValue = None,
        body_latitude = None, body_longitude = None\<rparr>) = Some (Fin 800)"
  by code_simp

section \<open>Properties of the property listing\<close>

lemma parseInt_undefined: "parseInt ''undefined'' = None"
  by code_simp

lemma int_or_None: "int_or None d = d"
  by (simp add: int_or_def)

lemma int_or_nonzero: "d \<noteq> 0 \<Longrightarrow> int_or n d \<noteq> 0"
  by (simp add: int_or_def split: option.split)

lemma pages_floor: "0 \<le> totalPages pg \<Longrightarrow> pages pg = max 1 (totalPages pg)"
  by (simp add: pages_def max_def)

text \<open>
  C8. The page of the filter is 1 when the \<open>page\<close> parameter is absent or does not parse
  as an integer, and the limit is 9 when the \<open>limit\<close> parameter is absent or does not
  parse as an integer.
\<close>

theorem page_and_limit_defaults:
  "((query_page q = None \<or> (\<exists>s. query_page q = Some s \<and> parseInt s = None)) \<longrightarrow>
      page (build_filters q) = 1) \<and>
   ((query_limit q = None \<or> (\<exists>s. query_limit q = Some s \<and> parseInt s = None)) \<longrightarrow>
      limit (build_filters q) = 9)"
  by (auto simp: build_filters_def parseInt_query_def parseInt_undefined int_or_None)

theorem page_and_limit_defaults_witness:
  "parseInt ''abc'' = None \<and>
   page (build_filters (q_empty\<lparr>query_page := Some ''abc''\<rparr>)) = 1 \<and>
   query_limit (q_empty\<lparr>query_page := Some ''abc''\<rparr>) = None \<and>
   limit (build_filters (q_empty\<lparr>query_page := Some ''abc''\<rparr>)) = 9"
proof -
  have h: "parseInt ''abc'' = None" by code_simp
  have l: "query_limit (q_empty\<lparr>query_page := Some ''abc''\<rparr>) = None" by (simp add: q_empty_def)
  from page_and_limit_defaults [of "q_empty\<lparr>query_page := Some ''abc''\<rparr>"] h l
  show ?thesis by simp
qed

text \<open>
  C2, as stated, fails: the handler does not compare an enum-typed parameter with its
  enum set, so the filter built for \<open>status=invalid-enum-value\<close> differs from the filter
  built when \<open>status\<close> is absent.
\<close>

theorem invalid_enum_status_counterexample:
  "build_filters (q_empty\<lparr>query_status := Some ''invalid-enum-value''\<rparr>)
     \<noteq> build_filters (q_empty\<lparr>query_status := None\<rparr>)"
  by (simp add: build_filters_def)

text \<open>
  C2 (amended). The handler copies the query value of every enum-typed field (status,
  category, propertyType, subType, furnishedStatus, parking, facing) unchanged into the
  filter it hands to storage, whether or not the value belongs to the enum set.
\<close>

theorem enum_fields_copied:
  "status (build_filters q) = query_status q \<and>
   category (build_filters q) = query_category q \<and>
   propertyType (build_filters q) = query_propertyType q \<and>
   subType (build_filters q) = query_subType q \<and>
   furnishedStatus (build_filters q) = query_furnishedStatus q \<and>
   parking (build_filters q) = query_parking q \<and>
   facing (build_filters q) = query_facing q"
  by (simp add: build_filters_def)

text \<open>
  C7. When storage answers with a page and a total, the response carries
  \<open>totalPages = \<lceil>total / limit\<rceil>\<close>, where the limit is never 0. The page count the client
  displays is 1 when the total is 0, and for a positive limit (the client sends none, so
  the limit of its requests is 9) it is the maximum of 1 and \<open>totalPages\<close>.
\<close>

theorem totalPages_ceiling:
  assumes "getPropertiesWithPagination (build_filters q) = Some (ps, n)"
  shows "\<exists>pg. getProperties getPropertiesWithPagination q = PropertiesJson ps pg \<and>
           limit (build_filters q) \<noteq> 0 \<and>
           totalPages pg = \<lceil>(of_nat n :: rat) / of_int (limit (build_filters q))\<rceil> \<and>
           (n = 0 \<longrightarrow> pages (client_pagination (getProperties getPropertiesWithPagination q)) = 1) \<and>
           (0 < limit (build_filters q) \<longrightarrow>
              pages (client_pagination (getProperties getPropertiesWithPagination q))
                = max 1 (totalPages pg))"
proof -
  let ?l = "limit (build_filters q)"
  let ?pg = "\<lparr> pagination_page = page (build_filters q), pagination_limit = ?l,
                total_count = int n, totalPages = \<lceil>(of_nat n :: rat) / of_int ?l\<rceil> \<rparr>"
  have r: "getProperties getPropertiesWithPagination q = PropertiesJson ps ?pg"
    using assms by (simp add: getProperties_def Let_def)
  have nz: "?l \<noteq> 0"
    by (simp add: build_filters_def int_or_nonzero)
  have c: "client_pagination (getProperties getPropertiesWithPagination q) = ?pg"
    by (simp add: r client_pagination_def)
  have z: "n = 0 \<Longrightarrow> pages ?pg = 1"
    by (simp add: pages_def)
  have m: "pages ?pg = max 1 (totalPages ?pg)" if "0 < ?l"
  proof -
    have "0 \<le> (of_nat n :: rat) / of_int ?l" using that by simp
    then have "0 \<le> totalPages ?pg" by simp
    then show ?thesis by (rule pages_floor)
  qed
  show ?thesis
  proof (intro exI [of _ ?pg] conjI impI)
    show "getProperties getPropertiesWithPagination q = PropertiesJson ps ?pg" by (rule r)
    show "?l \<noteq> 0" by (rule nz)
    show "totalPages ?pg = \<lceil>(of_nat n :: rat) / of_int ?l\<rceil>" by simp
    show "pages (client_pagination (getProperties getPropertiesWithPagination q)) = 1" if "n = 0"
      using z [OF that] by (simp only: c)
    show "pages (client_pagination (getProperties getPropertiesWithPagination q))
            = max 1 (totalPages ?pg)" if "0 < ?l"
      using m [OF that] by (simp only: c)
  qed
qed

theorem totalPages_ceiling_witness:
  "getProperties (\<lambda>_. Some ([] :: nat list, 0)) q_empty
     = PropertiesJson []
         \<lparr>pagination_page = 1, pagination_limit = 9, total_count = 0, totalPages = 0\<rparr> \<and>
   pages (client_pagination (getProperties (\<lambda>_. Some ([] :: nat list, 0)) q_empty)) = 1 \<and>
   limit (build_filters (q_empty\<lparr>query_limit := Some ''5'', query_page := Some ''2''\<rparr>)) = 5 \<and>
   (\<exists>pg. getProperties (\<lambda>_. Some ([6, 7, 8, 9, 10 :: nat], 10))
            (q_empty\<lparr>query_limit := Some ''5'', query_page := Some ''2''\<rparr>)
          = PropertiesJson [6, 7, 8, 9, 10] pg \<and>
         totalPages pg = 2 \<and>
         pages (client_pagination (getProperties (\<lambda>_. Some ([6, 7, 8, 9, 10 :: nat], 10))
            (q_empty\<lparr>query_limit := Some ''5'', query_page := Some ''2''\<rparr>))) = 2)"
proof -
  let ?g0 = "\<lambda>_ :: filters. Some ([] :: nat list, 0 :: nat)"
  let ?g1 = "\<lambda>_ :: filters. Some ([6, 7, 8, 9, 10 :: nat], 10 :: nat)"
  let ?q1 = "q_empty\<lparr>query_limit := Some ''5'', query_page := Some ''2''\<rparr>"
  have l0: "limit (build_filters q_empty) = 9" by code_simp
  have p0: "page (build_filters q_empty) = 1" by code_simp
  have l1: "limit (build_filters ?q1) = 5" by code_simp
  have c1: "\<lceil>(of_nat 10 :: rat) / of_int 5\<rceil> = 2" by simp
  from totalPages_ceiling [of ?g0 q_empty "[]" 0] obtain pg0 where
    a: "getProperties ?g0 q_empty = PropertiesJson [] pg0"
    and b: "pages (client_pagination (getProperties ?g0 q_empty)) = 1"
    by auto
  have a': "getProperties ?g0 q_empty = PropertiesJson []
         \<lparr>pagination_page = 1, pagination_limit = 9, total_count = 0, totalPages = 0\<rparr>"
    by (simp add: getProperties_def l0 p0)
  from totalPages_ceiling [of ?g1 ?q1 "[6, 7, 8, 9, 10]" 10] obtain pg1 where
    d: "getProperties ?g1 ?q1 = PropertiesJson [6, 7, 8, 9, 10] pg1"
    and e: "totalPages pg1 = \<lceil>(of_nat 10 :: rat) / of_int (limit (build_filters ?q1))\<rceil>"
    and f: "0 < limit (build_filters ?q1) \<longrightarrow>
              pages (client_pagination (getProperties ?g1 ?q1)) = max 1 (totalPages pg1)"
    by auto
  from e have e': "totalPages pg1 = 2" unfolding l1 c1 .
  from f have f': "pages (client_pagination (getProperties ?g1 ?q1)) = 2"
    unfolding l1 e' by simp
  from a' b l1 d e' f' show ?thesis by blast
qed

section \<open>Properties of the facility distance derivation\<close>

lemma coordinateStep_skipped:
  "truthy_num (body_distanceValue facilityData) \<Longrightarrow> \<not> coordinateStepRuns property facilityData"
  by (simp add: coordinateStepRuns_def)





end
